theory Spec2Isabelle
  imports Complex_Main "HOL-Library.Sublist" "HOL-Library.Multiset"
begin

section \<open>The catalog page: data model\<close>

text \<open>
  The page \<^verbatim>\<open>src/app/catalog/page.tsx\<close> keeps six pieces of component state and runs
  two effects: one fetch on mount and one filter/sort pipeline whenever the product list or
  a filter parameter changes.

  A TypeScript \<^verbatim>\<open>number\<close> is a double. The only arithmetic of the page is the
  subtraction of two ratings or two review counts inside the sort comparator, and only the
  sign of the difference is used; for finite doubles that sign is the sign of the exact
  difference, so a \<^verbatim>\<open>number\<close> is modelled as a real.
\<close>

type_synonym number = real

record product =
  id :: string
  name :: string
  category :: string
  image :: string
  rating :: number
  reviews :: number
  metal :: string
  purity :: string
  weight :: string
  description :: string

text \<open>
  The two string operations of the JavaScript runtime that the page calls and does not
  define, \<^verbatim>\<open>String.prototype.toLowerCase\<close> and \<^verbatim>\<open>String.prototype.localeCompare\<close>,
  are parameters of the model.
\<close>

record platform =
  toLowerCase :: "string \<Rightarrow> string"
  localeCompare :: "string \<Rightarrow> string \<Rightarrow> number"

text \<open>
  Arrays are objects: a state variable holds a reference, and \<^verbatim>\<open>sort\<close> works in place.
  The store maps every reference to the array it holds; \<open>nextRef\<close> is the next unused
  reference. The value returned by \<^verbatim>\<open>response.json()\<close> has the static type
  \<^verbatim>\<open>any\<close>, so a state variable may also hold a value that is not an array.
\<close>

type_synonym ref = nat

datatype jsvalue = ArrayRef ref | NonArray

datatype error = TypeError | SyntaxError

record page =
  heap :: "ref \<Rightarrow> product list"
  nextRef :: ref
  products :: jsvalue
  filteredProducts :: jsvalue
  searchTerm :: string
  selectedCategory :: string
  selectedMetal :: string
  sortBy :: string
  console :: "(string \<times> error) list"

text \<open>An array literal and \<^verbatim>\<open>Array.prototype.filter\<close> both create a new array.\<close>

definition new_array :: "product list \<Rightarrow> page \<Rightarrow> ref \<times> page" where
  "new_array xs s =
     (nextRef s, s\<lparr>heap := (heap s)(nextRef s := xs), nextRef := Suc (nextRef s)\<rparr>)"

definition array_filter :: "(product \<Rightarrow> bool) \<Rightarrow> ref \<Rightarrow> page \<Rightarrow> ref \<times> page" where
  "array_filter p r s = new_array (filter p (heap s r)) s"

text \<open>The state on mount: the \<^verbatim>\<open>useState\<close> defaults, each list a fresh empty array.\<close>

definition initial :: page where
  "initial =
     \<lparr>heap = (\<lambda>_. []), nextRef = 2, products = ArrayRef 0, filteredProducts = ArrayRef 1,
      searchTerm = '''', selectedCategory = ''all'', selectedMetal = ''all'',
      sortBy = ''name'', console = []\<rparr>"

section \<open>The filter predicates\<close>

text \<open>\<^verbatim>\<open>String.prototype.includes\<close>: the needle occurs at some position of the string.\<close>

fun str_includes :: "string \<Rightarrow> string \<Rightarrow> bool" where
  "str_includes [] needle = (needle = [])"
| "str_includes (c # cs) needle = (prefix needle (c # cs) \<or> str_includes cs needle)"

definition searchPred :: "platform \<Rightarrow> string \<Rightarrow> product \<Rightarrow> bool" where
  "searchPred pf term p \<longleftrightarrow>
     str_includes (toLowerCase pf (name p)) (toLowerCase pf term) \<or>
     str_includes (toLowerCase pf (category p)) (toLowerCase pf term) \<or>
     str_includes (toLowerCase pf (description p)) (toLowerCase pf term)"

definition categoryPred :: "string \<Rightarrow> product \<Rightarrow> bool" where
  "categoryPred cat p \<longleftrightarrow> category p = cat"

definition metalPred :: "platform \<Rightarrow> string \<Rightarrow> product \<Rightarrow> bool" where
  "metalPred pf m p \<longleftrightarrow> toLowerCase pf (metal p) = toLowerCase pf m"

section \<open>Sorting\<close>

text \<open>The comparator handed to \<^verbatim>\<open>sort\<close>: a switch on \<open>sortBy\<close> with a default case.\<close>

definition compareFn :: "platform \<Rightarrow> string \<Rightarrow> product \<Rightarrow> product \<Rightarrow> number" where
  "compareFn pf sb a b =
     (if sb = ''rating'' then rating b - rating a
      else if sb = ''reviews'' then reviews b - reviews a
      else localeCompare pf (name a) (name b))"

text \<open>
  \<^verbatim>\<open>Array.prototype.sort\<close> belongs to the runtime. The language standard (since
  ECMAScript 2019) requires it to be stable, and to order the array by the comparator
  whenever the comparator is consistent; every stable sort returns the same array then.
  It is modelled by a stable insertion sort: an element goes before the first element
  that it does not compare greater than.
\<close>

fun insert_by :: "('a \<Rightarrow> 'a \<Rightarrow> number) \<Rightarrow> 'a \<Rightarrow> 'a list \<Rightarrow> 'a list" where
  "insert_by c x [] = [x]"
| "insert_by c x (y # ys) = (if c x y \<le> 0 then x # y # ys else y # insert_by c x ys)"

definition sort_by :: "('a \<Rightarrow> 'a \<Rightarrow> number) \<Rightarrow> 'a list \<Rightarrow> 'a list" where
  "sort_by c xs = foldr (insert_by c) xs []"

definition array_sort :: "(product \<Rightarrow> product \<Rightarrow> number) \<Rightarrow> ref \<Rightarrow> page \<Rightarrow> page" where
  "array_sort c r s = s\<lparr>heap := (heap s)(r := sort_by c (heap s r))\<rparr>"

text \<open>
  A consistent comparator in the sense of the language standard: every value ties with
  itself, swapping the arguments swaps the sign, and "not greater" is transitive.
\<close>

definition consistent :: "('a \<Rightarrow> 'a \<Rightarrow> number) \<Rightarrow> bool" where
  "consistent c \<longleftrightarrow>
     (\<forall>a. c a a = 0) \<and> (\<forall>a b. (c a b < 0) = (0 < c b a)) \<and>
     (\<forall>a b d. c a b \<le> 0 \<and> c b d \<le> 0 \<longrightarrow> c a d \<le> 0)"

section \<open>The filter/sort effect\<close>

text \<open>
  Lines 58 to 99. \<open>filtered\<close> starts as the reference held by \<open>products\<close>; each active
  filter replaces it by a new array; the sort then works in place on whatever \<open>filtered\<close>
  refers to. Calling \<^verbatim>\<open>filter\<close> or \<^verbatim>\<open>sort\<close> on a value that is not an array throws.
\<close>

definition searchStep :: "platform \<Rightarrow> ref \<Rightarrow> page \<Rightarrow> ref \<times> page" where
  "searchStep pf r s =
     (if searchTerm s \<noteq> '''' then array_filter (searchPred pf (searchTerm s)) r s else (r, s))"

definition categoryStep :: "ref \<Rightarrow> page \<Rightarrow> ref \<times> page" where
  "categoryStep r s =
     (if selectedCategory s \<noteq> ''all''
      then array_filter (categoryPred (selectedCategory s)) r s else (r, s))"

definition metalStep :: "platform \<Rightarrow> ref \<Rightarrow> page \<Rightarrow> ref \<times> page" where
  "metalStep pf r s =
     (if selectedMetal s \<noteq> ''all''
      then array_filter (metalPred pf (selectedMetal s)) r s else (r, s))"

definition sortStep :: "platform \<Rightarrow> ref \<Rightarrow> page \<Rightarrow> page" where
  "sortStep pf r s = array_sort (compareFn pf (sortBy s)) r s"

definition filterEffect :: "platform \<Rightarrow> page \<Rightarrow> error + page" where
  "filterEffect pf s =
     (case products s of
        NonArray \<Rightarrow> Inl TypeError
      | ArrayRef r0 \<Rightarrow>
          let (r1, s1) = searchStep pf r0 s;
              (r2, s2) = categoryStep r1 s1;
              (r3, s3) = metalStep pf r2 s2;
              s4 = sortStep pf r3 s3
          in Inr (s4\<lparr>filteredProducts := ArrayRef r3\<rparr>))"

text \<open>Reading a state variable that holds an array.\<close>

definition deref :: "page \<Rightarrow> jsvalue \<Rightarrow> product list option" where
  "deref s v = (case v of ArrayRef r \<Rightarrow> Some (heap s r) | NonArray \<Rightarrow> None)"

section \<open>The fetch effect\<close>

text \<open>
  Lines 40 to 56. \<^verbatim>\<open>fetch\<close> rejects on a network failure only; a response of any status
  resolves. \<^verbatim>\<open>response.json()\<close> rejects when the body is not JSON text. A body that
  parses is either an array of product records or some other JSON value.
\<close>

datatype json = JsonArray "product list" | JsonOther

datatype body = Unparseable | Parsed json

record response =
  status :: nat
  body :: body

datatype fetch_result = Rejected | Resolved response

definition response_json :: "response \<Rightarrow> error + json" where
  "response_json resp = (case body resp of Unparseable \<Rightarrow> Inl SyntaxError | Parsed j \<Rightarrow> Inr j)"

definition fetchProducts :: "fetch_result \<Rightarrow> page \<Rightarrow> page" where
  "fetchProducts res s =
     (case (case res of Rejected \<Rightarrow> Inl TypeError | Resolved resp \<Rightarrow> response_json resp) of
        Inr (JsonArray ps) \<Rightarrow>
          let (r, s1) = new_array ps s
          in s1\<lparr>products := ArrayRef r, filteredProducts := ArrayRef r\<rparr>
      | Inr JsonOther \<Rightarrow> s\<lparr>products := NonArray, filteredProducts := NonArray\<rparr>
      | Inl err \<Rightarrow>
          let s1 = s\<lparr>console := console s @ [(''Failed to fetch products:'', err)]\<rparr>;
              (r1, s2) = new_array [] s1;
              s3 = s2\<lparr>products := ArrayRef r1\<rparr>;
              (r2, s4) = new_array [] s3
          in s4\<lparr>filteredProducts := ArrayRef r2\<rparr>)"

section \<open>The reset control\<close>

text \<open>Lines 180 to 184: the click handler of the button in the "no results" panel.\<close>

definition clearAllFilters :: "page \<Rightarrow> page" where
  "clearAllFilters s = s\<lparr>searchTerm := '''', selectedCategory := ''all'', selectedMetal := ''all''\<rparr>"

section \<open>A concrete runtime\<close>

text \<open>
  One instance of the two runtime operations, for evaluating the page on concrete data:
  lower-casing of the ASCII letters, and comparison of strings by their code units.
\<close>

definition lowerChar :: "char \<Rightarrow> char" where
  "lowerChar c =
     (if 65 \<le> (of_char c :: nat) \<and> (of_char c :: nat) \<le> 90
      then (case c of Char b0 b1 b2 b3 b4 b5 b6 b7 \<Rightarrow> Char b0 b1 b2 b3 b4 True b6 b7)
      else c)"

fun codeUnitCompare :: "string \<Rightarrow> string \<Rightarrow> number" where
  "codeUnitCompare [] [] = 0"
| "codeUnitCompare [] (y # ys) = - 1"
| "codeUnitCompare (x # xs) [] = 1"
| "codeUnitCompare (x # xs) (y # ys) =
     (if (of_char x :: nat) < of_char y then - 1
      else if (of_char y :: nat) < of_char x then 1
      else codeUnitCompare xs ys)"

definition asciiRuntime :: platform where
  "asciiRuntime = \<lparr>toLowerCase = map lowerChar, localeCompare = codeUnitCompare\<rparr>"

text \<open>Sample products, and the page once a list has been fetched.\<close>

definition goldRing :: product where
  "goldRing =
     \<lparr>id = ''1'', name = ''Gold Ring'', category = ''Rings'', image = '''', rating = 4,
      reviews = 10, metal = ''Gold'', purity = ''22K'', weight = ''5g'', description = ''''\<rparr>"

definition silverBand :: product where
  "silverBand =
     \<lparr>id = ''2'', name = ''Silver Band'', category = ''Rings'', image = '''', rating = 5,
      reviews = 2, metal = ''Silver'', purity = ''925'', weight = ''4g'', description = ''''\<rparr>"

definition loaded :: "product list \<Rightarrow> page" where
  "loaded ps = fetchProducts (Resolved \<lparr>status = 200, body = Parsed (JsonArray ps)\<rparr>) initial"


definition pearlPendant :: product where
  "pearlPendant =
     \<lparr>id = ''3'', name = ''Pearl Pendant'', category = ''Pendants'', image = '''', rating = 4,
      reviews = 2, metal = ''Gold'', purity = ''18K'', weight = ''3g'',
      description = ''A pearl on a ring of gold''\<rparr>"

definition catalog :: "product list" where
  "catalog = [goldRing, silverBand, pearlPendant]"

definition serverError :: fetch_result where
  "serverError = Resolved \<lparr>status = 500, body = Parsed (JsonArray [goldRing])\<rparr>"

section \<open>Notions used to state the properties\<close>

text \<open>The array that a filter step hands on: the one its reference points to.\<close>

definition arrayOf :: "ref \<times> page \<Rightarrow> product list" where
  "arrayOf rs = heap (snd rs) (fst rs)"

text \<open>
  A case-insensitive substring, as the specification words it: the lower-cased term occurs
  somewhere inside the lower-cased field.
\<close>

definition ci_contains :: "platform \<Rightarrow> string \<Rightarrow> string \<Rightarrow> bool" where
  "ci_contains pf field term \<longleftrightarrow>
     (\<exists>pre suf. toLowerCase pf field = pre @ toLowerCase pf term @ suf)"

text \<open>The products that pass every active filter of a page.\<close>

definition retained :: "platform \<Rightarrow> page \<Rightarrow> product \<Rightarrow> bool" where
  "retained pf s p \<longleftrightarrow>
     (searchTerm s = '''' \<or> searchPred pf (searchTerm s) p) \<and>
     (selectedCategory s = ''all'' \<or> categoryPred (selectedCategory s) p) \<and>
     (selectedMetal s = ''all'' \<or> metalPred pf (selectedMetal s) p)"

section \<open>Sorting: permutation, order, stability\<close>

lemma set_insert_by: "set (insert_by c x ys) = insert x (set ys)"
  by (induction ys) auto

lemma mset_insert_by: "mset (insert_by c x ys) = add_mset x (mset ys)"
  by (induction ys) auto

lemma sort_by_Cons: "sort_by c (x # xs) = insert_by c x (sort_by c xs)"
  by (simp add: sort_by_def)

lemma mset_sort_by: "mset (sort_by c xs) = mset xs"
  by (induction xs) (simp_all add: sort_by_def mset_insert_by)

lemma set_sort_by: "set (sort_by c xs) = set xs"
  using mset_sort_by [of c xs] by (metis set_mset_mset)

lemma consistent_total: "consistent c \<Longrightarrow> c a b \<le> 0 \<or> c b a \<le> 0"
  unfolding consistent_def by (metis less_eq_real_def not_le)

lemma consistent_trans: "consistent c \<Longrightarrow> c a b \<le> 0 \<Longrightarrow> c b d \<le> 0 \<Longrightarrow> c a d \<le> 0"
  unfolding consistent_def by blast

lemma consistent_tie_sym: "consistent c \<Longrightarrow> c a b = 0 \<Longrightarrow> c b a = 0"
  unfolding consistent_def by (metis not_less_iff_gr_or_eq)

lemma sorted_insert_by:
  assumes tot: "\<And>a b. c a b \<le> 0 \<or> c b a \<le> 0"
    and tr: "\<And>a b d. c a b \<le> 0 \<Longrightarrow> c b d \<le> 0 \<Longrightarrow> c a d \<le> 0"
  shows "sorted_wrt (\<lambda>a b. c a b \<le> 0) ys \<Longrightarrow>
         sorted_wrt (\<lambda>a b. c a b \<le> 0) (insert_by c x ys)"
proof (induction ys)
  case Nil
  show ?case by simp
next
  case (Cons y ys)
  show ?case
  proof (cases "c x y \<le> 0")
    case True
    have "\<forall>z\<in>set ys. c x z \<le> 0"
      using Cons.prems True tr by auto
    with True Cons.prems show ?thesis by simp
  next
    case False
    then have yx: "c y x \<le> 0" using tot [of x y] by simp
    have "sorted_wrt (\<lambda>a b. c a b \<le> 0) (insert_by c x ys)"
      using Cons by simp
    with False yx Cons.prems show ?thesis
      by (simp add: set_insert_by)
  qed
qed

lemma sorted_sort_by:
  assumes "consistent c"
  shows "sorted_wrt (\<lambda>a b. c a b \<le> 0) (sort_by c xs)"
proof (induction xs)
  case Nil
  show ?case by (simp add: sort_by_def)
next
  case (Cons x xs)
  show ?case
    unfolding sort_by_Cons
    by (rule sorted_insert_by [OF consistent_total [OF assms] consistent_trans [OF assms] Cons.IH])
qed

lemma insert_by_sorted_head: "\<forall>y\<in>set ys. c x y \<le> 0 \<Longrightarrow> insert_by c x ys = x # ys"
  by (cases ys) simp_all

lemma sort_by_sorted: "sorted_wrt (\<lambda>a b. c a b \<le> 0) xs \<Longrightarrow> sort_by c xs = xs"
  by (induction xs) (simp_all add: sort_by_def insert_by_sorted_head)

lemma sort_by_idem: "consistent c \<Longrightarrow> sort_by c (sort_by c xs) = sort_by c xs"
  by (simp add: sort_by_sorted sorted_sort_by)

lemma filter_insert_by_out: "\<not> P x \<Longrightarrow> filter P (insert_by c x ys) = filter P ys"
  by (induction ys) simp_all

lemma filter_insert_by_in:
  assumes "P x" and "\<And>y. y \<in> set ys \<Longrightarrow> P y \<Longrightarrow> c x y \<le> 0"
  shows "filter P (insert_by c x ys) = x # filter P ys"
  using assms by (induction ys) auto

lemma sort_by_stable:
  assumes "consistent c"
  shows "filter (\<lambda>y. c k y = 0) (sort_by c xs) = filter (\<lambda>y. c k y = 0) xs"
proof (induction xs)
  case Nil
  show ?case by (simp add: sort_by_def)
next
  case (Cons x xs)
  show ?case
  proof (cases "c k x = 0")
    case False
    then show ?thesis
      by (simp add: sort_by_Cons filter_insert_by_out Cons.IH)
  next
    case True
    have "c x y \<le> 0" if "c k y = 0" for y
    proof -
      have "c x k \<le> 0" using consistent_tie_sym [OF assms True] by simp
      with that show ?thesis using consistent_trans [OF assms, of x k y] by simp
    qed
    then have "filter (\<lambda>y. c k y = 0) (insert_by c x (sort_by c xs))
               = x # filter (\<lambda>y. c k y = 0) (sort_by c xs)"
      using True by (intro filter_insert_by_in) auto
    with True show ?thesis
      by (simp add: sort_by_Cons Cons.IH)
  qed
qed

text \<open>
  The two numeric comparators are consistent as they stand; the comparator by name is as
  consistent as \<^verbatim>\<open>localeCompare\<close> is (the language standard requires it to be).
\<close>

lemma consistent_compareFn:
  assumes "sb = ''rating'' \<or> sb = ''reviews'' \<or> consistent (localeCompare pf)"
  shows "consistent (compareFn pf sb)"
proof (cases "sb = ''rating''")
  case True
  then have "compareFn pf sb = (\<lambda>a b. rating b - rating a)"
    by (simp add: compareFn_def [abs_def])
  then show ?thesis by (simp add: consistent_def)
next
  case notRating: False
  show ?thesis
  proof (cases "sb = ''reviews''")
    case True
    then have "compareFn pf sb = (\<lambda>a b. reviews b - reviews a)"
      by (simp add: compareFn_def [abs_def])
    then show ?thesis by (simp add: consistent_def)
  next
    case False
    with notRating have eq: "compareFn pf sb = (\<lambda>a b. localeCompare pf (name a) (name b))"
      by (simp add: compareFn_def [abs_def])
    from False notRating assms have "consistent (localeCompare pf)" by simp
    then show ?thesis unfolding eq consistent_def by blast
  qed
qed

lemma heap_sortStep: "heap (sortStep pf r s) r = sort_by (compareFn pf (sortBy s)) (heap s r)"
  by (simp add: sortStep_def array_sort_def)

section \<open>Substrings\<close>

lemma str_includes_iff: "str_includes hay needle \<longleftrightarrow> (\<exists>pre suf. hay = pre @ needle @ suf)"
proof (induction hay)
  case Nil
  show ?case by auto
next
  case (Cons c cs)
  have "(\<exists>pre suf. c # cs = pre @ needle @ suf) \<longleftrightarrow>
        (\<exists>suf. c # cs = needle @ suf) \<or> (\<exists>pre suf. cs = pre @ needle @ suf)"
  proof
    assume "\<exists>pre suf. c # cs = pre @ needle @ suf"
    then obtain pre suf where e: "c # cs = pre @ needle @ suf" by blast
    show "(\<exists>suf. c # cs = needle @ suf) \<or> (\<exists>pre suf. cs = pre @ needle @ suf)"
    proof (cases pre)
      case Nil
      with e show ?thesis by auto
    next
      case (Cons a pre')
      with e have "cs = pre' @ needle @ suf" by simp
      then show ?thesis by blast
    qed
  next
    assume "(\<exists>suf. c # cs = needle @ suf) \<or> (\<exists>pre suf. cs = pre @ needle @ suf)"
    then show "\<exists>pre suf. c # cs = pre @ needle @ suf"
    proof
      assume "\<exists>suf. c # cs = needle @ suf"
      then obtain suf where "c # cs = [] @ needle @ suf" by auto
      then show ?thesis by blast
    next
      assume "\<exists>pre suf. cs = pre @ needle @ suf"
      then obtain pre suf where "c # cs = (c # pre) @ needle @ suf" by auto
      then show ?thesis by blast
    qed
  qed
  with Cons show ?case by (simp add: prefix_def)
qed

lemma searchPred_iff:
  "searchPred pf term p \<longleftrightarrow>
     ci_contains pf (name p) term \<or> ci_contains pf (category p) term \<or>
     ci_contains pf (description p) term"
  by (simp add: searchPred_def ci_contains_def str_includes_iff)

section \<open>The effect as a whole\<close>

lemma arrayOf_searchStep:
  "searchTerm s \<noteq> '''' \<Longrightarrow>
   arrayOf (searchStep pf r s) = filter (searchPred pf (searchTerm s)) (heap s r)"
  by (simp add: arrayOf_def searchStep_def array_filter_def new_array_def)

lemma arrayOf_categoryStep:
  "selectedCategory s \<noteq> ''all'' \<Longrightarrow>
   arrayOf (categoryStep r s) = filter (categoryPred (selectedCategory s)) (heap s r)"
  by (simp add: arrayOf_def categoryStep_def array_filter_def new_array_def)

lemma arrayOf_metalStep:
  "selectedMetal s \<noteq> ''all'' \<Longrightarrow>
   arrayOf (metalStep pf r s) = filter (metalPred pf (selectedMetal s)) (heap s r)"
  by (simp add: arrayOf_def metalStep_def array_filter_def new_array_def)

text \<open>
  The effect always returns when the stored value is an array, and what it publishes is the
  sorted list of the retained products.
\<close>

lemma filterEffect_output:
  assumes "products s = ArrayRef r0"
  shows "\<exists>s'. filterEffect pf s = Inr s' \<and>
           deref s' (filteredProducts s') =
             Some (sort_by (compareFn pf (sortBy s)) (filter (retained pf s) (heap s r0)))"
  using assms
  by (auto simp add: filterEffect_def searchStep_def categoryStep_def metalStep_def sortStep_def
      array_sort_def array_filter_def new_array_def deref_def retained_def [abs_def])

lemma filterEffect_frame:
  assumes "filterEffect pf s = Inr s'"
  shows "products s' = products s \<and> searchTerm s' = searchTerm s \<and>
         selectedCategory s' = selectedCategory s \<and> selectedMetal s' = selectedMetal s \<and>
         sortBy s' = sortBy s \<and> console s' = console s"
  using assms
  by (auto simp add: filterEffect_def searchStep_def categoryStep_def metalStep_def sortStep_def
      array_sort_def array_filter_def new_array_def split: jsvalue.splits if_splits)

text \<open>
  As soon as one filter is active, the sorted array is a new one and the stored list keeps
  its order.
\<close>

lemma filterEffect_fresh:
  assumes "products s = ArrayRef r0" "r0 < nextRef s"
    and "searchTerm s \<noteq> '''' \<or> selectedCategory s \<noteq> ''all'' \<or> selectedMetal s \<noteq> ''all''"
    and "filterEffect pf s = Inr s'"
  shows "heap s' r0 = heap s r0 \<and> filteredProducts s' \<noteq> products s'"
  using assms
  by (auto simp add: filterEffect_def searchStep_def categoryStep_def metalStep_def sortStep_def
      array_sort_def array_filter_def new_array_def split: jsvalue.splits if_splits)

text \<open>A JSON body that is not an array is stored as it is, and the effect then throws.\<close>

lemma non_array_body_is_stored:
  "products (fetchProducts (Resolved \<lparr>status = st, body = Parsed JsonOther\<rparr>) s) = NonArray \<and>
   filterEffect pf (fetchProducts (Resolved \<lparr>status = st, body = Parsed JsonOther\<rparr>) s) =
     Inl TypeError"
  by (simp add: fetchProducts_def response_json_def filterEffect_def)

section \<open>The concrete runtime and the sample page\<close>

lemma codeUnitCompare_refl: "codeUnitCompare a a = 0"
  by (induction a) auto

lemma codeUnitCompare_swap: "(codeUnitCompare a b < 0) = (0 < codeUnitCompare b a)"
  by (induction a b rule: codeUnitCompare.induct) auto

lemma codeUnitCompare_Cons_le:
  "codeUnitCompare (x # xs) (y # ys) \<le> 0 \<longleftrightarrow>
     (of_char x :: nat) < of_char y \<or>
     ((of_char x :: nat) = of_char y \<and> codeUnitCompare xs ys \<le> 0)"
  by auto

lemma codeUnitCompare_trans:
  "codeUnitCompare a b \<le> 0 \<Longrightarrow> codeUnitCompare b d \<le> 0 \<Longrightarrow> codeUnitCompare a d \<le> 0"
proof (induction a arbitrary: b d)
  case Nil
  then show ?case by (cases d) simp_all
next
  case (Cons x xs)
  from Cons.prems(1) obtain y ys where b: "b = y # ys" by (cases b) auto
  from Cons.prems(2) b obtain z zs where d: "d = z # zs" by (cases d) auto
  from Cons.prems(1) b
  have xy: "(of_char x :: nat) < of_char y \<or>
            ((of_char x :: nat) = of_char y \<and> codeUnitCompare xs ys \<le> 0)"
    by (simp only: codeUnitCompare_Cons_le)
  from Cons.prems(2) b d
  have yz: "(of_char y :: nat) < of_char z \<or>
            ((of_char y :: nat) = of_char z \<and> codeUnitCompare ys zs \<le> 0)"
    by (simp only: codeUnitCompare_Cons_le)
  have "(of_char x :: nat) < of_char z \<or>
        ((of_char x :: nat) = of_char z \<and> codeUnitCompare xs zs \<le> 0)"
    using xy yz Cons.IH [of ys zs] by auto
  then show ?case unfolding d by (simp only: codeUnitCompare_Cons_le)
qed

lemma consistent_asciiRuntime: "consistent (localeCompare asciiRuntime)"
  unfolding consistent_def asciiRuntime_def
  using codeUnitCompare_refl codeUnitCompare_swap codeUnitCompare_trans by simp blast

lemma loaded_simps:
  "products (loaded ps) = ArrayRef 2" "filteredProducts (loaded ps) = ArrayRef 2"
  "heap (loaded ps) 2 = ps" "nextRef (loaded ps) = 3" "searchTerm (loaded ps) = ''''"
  "selectedCategory (loaded ps) = ''all''" "selectedMetal (loaded ps) = ''all''"
  "sortBy (loaded ps) = ''name''" "console (loaded ps) = []"
  by (simp_all add: loaded_def fetchProducts_def response_json_def new_array_def initial_def)

lemmas eval_defs = filterEffect_def searchStep_def categoryStep_def metalStep_def
  sortStep_def array_sort_def array_filter_def new_array_def sort_by_def compareFn_def
  deref_def arrayOf_def searchPred_def categoryPred_def metalPred_def lowerChar_def
  asciiRuntime_def catalog_def goldRing_def silverBand_def pearlPendant_def


section \<open>The stored list and the effect\<close>

text \<open>
  C1. The claim: the effect never changes the stored product list, and what it publishes
  is always a new list. On the page as fetched, with no filter active, the effect sorts
  the array that \<open>products\<close> refers to in place: the stored list \<open>[goldRing, silverBand,
  pearlPendant]\<close> becomes \<open>[goldRing, pearlPendant, silverBand]\<close>, and \<open>filteredProducts\<close>
  ends up holding that same array, not a new one.
\<close>

theorem effect_sorts_stored_list_in_place:
  "\<exists>s'. filterEffect asciiRuntime (loaded catalog) = Inr s' \<and>
        products (loaded catalog) = ArrayRef 2 \<and> products s' = ArrayRef 2 \<and>
        filteredProducts s' = ArrayRef 2 \<and>
        heap (loaded catalog) 2 = [goldRing, silverBand, pearlPendant] \<and>
        heap s' 2 = [goldRing, pearlPendant, silverBand]"
  by (simp add: loaded_simps eval_defs)

section \<open>The fetch\<close>

text \<open>
  C2, as stated: every failed fetch, a non-success status included, leaves both lists
  empty. A response with status 500 whose body is a JSON array is stored like any other:
  both state variables hold the array of the body and nothing is logged.
\<close>

theorem server_error_counterexample:
  "products (fetchProducts serverError initial) = ArrayRef 2 \<and>
   filteredProducts (fetchProducts serverError initial) = ArrayRef 2 \<and>
   heap (fetchProducts serverError initial) 2 = [goldRing] \<and>
   console (fetchProducts serverError initial) = []"
  by (simp add: serverError_def fetchProducts_def response_json_def new_array_def initial_def)

text \<open>
  C2, amended: when the request is rejected (a network error) or the body is not JSON
  text, the stored list and the filtered list are both set to the empty list and the error
  is logged on the console, once; the page has no other place where an error could show.
  A response whose body is a JSON array is stored as received, whatever its status, and
  nothing is logged.
\<close>

theorem fetch_failure_stores_empty_lists:
  "(res = Rejected \<or> (\<exists>resp. res = Resolved resp \<and> body resp = Unparseable) \<longrightarrow>
      deref (fetchProducts res s) (products (fetchProducts res s)) = Some [] \<and>
      deref (fetchProducts res s) (filteredProducts (fetchProducts res s)) = Some [] \<and>
      (\<exists>e. console (fetchProducts res s) = console s @ [(''Failed to fetch products:'', e)])) \<and>
   (\<forall>resp ps. res = Resolved resp \<and> body resp = Parsed (JsonArray ps) \<longrightarrow>
      deref (fetchProducts res s) (products (fetchProducts res s)) = Some ps \<and>
      deref (fetchProducts res s) (filteredProducts (fetchProducts res s)) = Some ps \<and>
      console (fetchProducts res s) = console s)"
  by (auto simp add: fetchProducts_def response_json_def new_array_def deref_def)

theorem fetch_failure_stores_empty_lists_witness:
  "deref (fetchProducts Rejected initial) (products (fetchProducts Rejected initial)) = Some [] \<and>
   deref (fetchProducts Rejected initial) (filteredProducts (fetchProducts Rejected initial)) =
     Some [] \<and>
   console (fetchProducts Rejected initial) = [(''Failed to fetch products:'', TypeError)] \<and>
   body \<lparr>status = 200, body = Unparseable\<rparr> = Unparseable \<and>
   deref (fetchProducts (Resolved \<lparr>status = 200, body = Unparseable\<rparr>) initial)
     (products (fetchProducts (Resolved \<lparr>status = 200, body = Unparseable\<rparr>) initial)) =
     Some [] \<and>
   console (fetchProducts (Resolved \<lparr>status = 200, body = Unparseable\<rparr>) initial) =
     [(''Failed to fetch products:'', SyntaxError)] \<and>
   body \<lparr>status = 404, body = Parsed (JsonArray catalog)\<rparr> = Parsed (JsonArray catalog) \<and>
   deref (fetchProducts (Resolved \<lparr>status = 404, body = Parsed (JsonArray catalog)\<rparr>) initial)
     (products
       (fetchProducts (Resolved \<lparr>status = 404, body = Parsed (JsonArray catalog)\<rparr>) initial)) =
     Some catalog"
  using fetch_failure_stores_empty_lists [of Rejected initial]
    fetch_failure_stores_empty_lists [of "Resolved \<lparr>status = 200, body = Unparseable\<rparr>" initial]
    fetch_failure_stores_empty_lists
      [of "Resolved \<lparr>status = 404, body = Parsed (JsonArray catalog)\<rparr>" initial]
  by (simp add: fetchProducts_def response_json_def new_array_def deref_def initial_def)

section \<open>The output without filters\<close>

text \<open>
  C3. With an empty search term and both selectors on "all", the effect returns, and the
  list it publishes is a permutation of the stored list (nothing dropped, nothing
  duplicated), ordered as \<open>sortBy\<close> says: ratings descending under "rating", review
  counts descending under "reviews", names ascending in the order of
  \<^verbatim>\<open>localeCompare\<close> under "name" and under every other value.
\<close>

theorem unfiltered_output_sorted_permutation:
  assumes "products s = ArrayRef r" and "searchTerm s = ''''"
    and "selectedCategory s = ''all''" and "selectedMetal s = ''all''"
    and "consistent (localeCompare pf)"
  shows "\<exists>s' out. filterEffect pf s = Inr s' \<and> deref s' (filteredProducts s') = Some out \<and>
           mset out = mset (heap s r) \<and>
           (sortBy s = ''rating'' \<longrightarrow> sorted_wrt (\<lambda>a b. rating b \<le> rating a) out) \<and>
           (sortBy s = ''reviews'' \<longrightarrow> sorted_wrt (\<lambda>a b. reviews b \<le> reviews a) out) \<and>
           (sortBy s \<noteq> ''rating'' \<and> sortBy s \<noteq> ''reviews'' \<longrightarrow>
              sorted_wrt (\<lambda>a b. localeCompare pf (name a) (name b) \<le> 0) out)"
proof -
  let ?out = "sort_by (compareFn pf (sortBy s)) (filter (retained pf s) (heap s r))"
  obtain s' where eff: "filterEffect pf s = Inr s'"
    and out: "deref s' (filteredProducts s') = Some ?out"
    using filterEffect_output [OF assms(1)] by blast
  have "filter (retained pf s) (heap s r) = heap s r"
    using assms(2-4) by (simp add: retained_def)
  then have perm: "mset ?out = mset (heap s r)"
    by (simp add: mset_sort_by)
  have srt: "sorted_wrt (\<lambda>a b. compareFn pf (sortBy s) a b \<le> 0) ?out"
    using assms(5) by (intro sorted_sort_by consistent_compareFn) simp
  have byRating: "sorted_wrt (\<lambda>a b. rating b \<le> rating a) ?out" if "sortBy s = ''rating''"
    using srt that by (simp add: compareFn_def)
  have byReviews: "sorted_wrt (\<lambda>a b. reviews b \<le> reviews a) ?out" if "sortBy s = ''reviews''"
    using srt that by (simp add: compareFn_def)
  have byName: "sorted_wrt (\<lambda>a b. localeCompare pf (name a) (name b) \<le> 0) ?out"
    if "sortBy s \<noteq> ''rating''" and "sortBy s \<noteq> ''reviews''"
    using srt that by (simp add: compareFn_def)
  from eff out perm byRating byReviews byName show ?thesis by blast
qed

theorem unfiltered_output_sorted_permutation_witness:
  "products (loaded catalog) = ArrayRef 2 \<and> searchTerm (loaded catalog) = '''' \<and>
   selectedCategory (loaded catalog) = ''all'' \<and> selectedMetal (loaded catalog) = ''all'' \<and>
   heap (loaded catalog) 2 = [goldRing, silverBand, pearlPendant] \<and>
   (\<exists>s'. filterEffect asciiRuntime (loaded catalog) = Inr s' \<and>
      deref s' (filteredProducts s') = Some [goldRing, pearlPendant, silverBand]) \<and>
   (\<exists>s'. filterEffect asciiRuntime ((loaded catalog)\<lparr>sortBy := ''rating''\<rparr>) = Inr s' \<and>
      deref s' (filteredProducts s') = Some [silverBand, goldRing, pearlPendant]) \<and>
   (\<exists>s'. filterEffect asciiRuntime ((loaded catalog)\<lparr>sortBy := ''reviews''\<rparr>) = Inr s' \<and>
      deref s' (filteredProducts s') = Some [goldRing, silverBand, pearlPendant])"
  using unfiltered_output_sorted_permutation [of "loaded catalog" 2 asciiRuntime]
    unfiltered_output_sorted_permutation
      [of "(loaded catalog)\<lparr>sortBy := ''rating''\<rparr>" 2 asciiRuntime]
    unfiltered_output_sorted_permutation
      [of "(loaded catalog)\<lparr>sortBy := ''reviews''\<rparr>" 2 asciiRuntime]
    consistent_asciiRuntime
  by (simp add: loaded_simps eval_defs)

section \<open>The three filters\<close>

text \<open>
  C4. With a non-empty search term, the search step keeps, in their order, exactly the
  products of which the name, the category or the description contains the term as a
  case-insensitive substring; a product it drops contains the term in none of the three.
\<close>

theorem search_step_retains_matches:
  assumes "searchTerm s \<noteq> ''''"
  shows "arrayOf (searchStep pf r s) =
           filter (\<lambda>p. ci_contains pf (name p) (searchTerm s) \<or>
                        ci_contains pf (category p) (searchTerm s) \<or>
                        ci_contains pf (description p) (searchTerm s)) (heap s r)"
  using assms by (simp add: arrayOf_searchStep searchPred_iff [abs_def])

theorem search_step_retains_matches_witness:
  "searchTerm ((loaded catalog)\<lparr>searchTerm := ''GOLD''\<rparr>) \<noteq> '''' \<and>
   arrayOf (searchStep asciiRuntime 2 ((loaded catalog)\<lparr>searchTerm := ''GOLD''\<rparr>)) =
     [goldRing, pearlPendant] \<and>
   filter (\<lambda>p. ci_contains asciiRuntime (name p) ''GOLD'' \<or>
                ci_contains asciiRuntime (category p) ''GOLD'' \<or>
                ci_contains asciiRuntime (description p) ''GOLD'') catalog =
     [goldRing, pearlPendant]"
proof -
  let ?s = "(loaded catalog)\<lparr>searchTerm := ''GOLD''\<rparr>"
  have ne: "searchTerm ?s \<noteq> ''''" by simp
  have ev: "arrayOf (searchStep asciiRuntime 2 ?s) = [goldRing, pearlPendant]"
    by (simp add: loaded_simps eval_defs)
  from search_step_retains_matches [OF ne, of asciiRuntime 2] ev ne show ?thesis
    by (simp add: loaded_simps)
qed

text \<open>
  C5. With a category other than "all" selected, the category step keeps, in their order,
  exactly the products whose category is equal to the selected one, character for
  character; and every product that the effect publishes has that category.
\<close>

theorem category_step_exact:
  assumes "selectedCategory s \<noteq> ''all''"
  shows "arrayOf (categoryStep r s) = filter (\<lambda>p. category p = selectedCategory s) (heap s r) \<and>
         (products s = ArrayRef r \<longrightarrow>
            (\<exists>s' out. filterEffect pf s = Inr s' \<and> deref s' (filteredProducts s') = Some out \<and>
               (\<forall>p\<in>set out. category p = selectedCategory s)))"
proof -
  have "\<exists>s' out. filterEffect pf s = Inr s' \<and> deref s' (filteredProducts s') = Some out \<and>
               (\<forall>p\<in>set out. category p = selectedCategory s)"
    if prod: "products s = ArrayRef r"
  proof -
    let ?out = "sort_by (compareFn pf (sortBy s)) (filter (retained pf s) (heap s r))"
    obtain s' where "filterEffect pf s = Inr s'" "deref s' (filteredProducts s') = Some ?out"
      using filterEffect_output [OF prod] by blast
    moreover have "\<forall>p\<in>set ?out. category p = selectedCategory s"
      using assms by (simp add: set_sort_by retained_def categoryPred_def)
    ultimately show ?thesis by blast
  qed
  then show ?thesis
    using assms by (simp add: arrayOf_categoryStep categoryPred_def [abs_def])
qed

theorem category_step_exact_witness:
  "selectedCategory ((loaded catalog)\<lparr>selectedCategory := ''Rings''\<rparr>) \<noteq> ''all'' \<and>
   products ((loaded catalog)\<lparr>selectedCategory := ''Rings''\<rparr>) = ArrayRef 2 \<and>
   arrayOf (categoryStep 2 ((loaded catalog)\<lparr>selectedCategory := ''Rings''\<rparr>)) =
     [goldRing, silverBand] \<and>
   (\<exists>s'. filterEffect asciiRuntime ((loaded catalog)\<lparr>selectedCategory := ''Rings''\<rparr>) = Inr s' \<and>
      deref s' (filteredProducts s') = Some [goldRing, silverBand])"
  using category_step_exact [of "(loaded catalog)\<lparr>selectedCategory := ''Rings''\<rparr>" 2 asciiRuntime]
  by (simp add: loaded_simps eval_defs)

text \<open>
  C6. With a metal other than "all" selected, the metal step keeps, in their order, exactly
  the products whose metal, lower-cased, is equal to the selected metal, lower-cased
  (equality of the whole strings); and every product that the effect publishes is such a
  product.
\<close>

theorem metal_step_exact:
  assumes "selectedMetal s \<noteq> ''all''"
  shows "arrayOf (metalStep pf r s) =
           filter (\<lambda>p. toLowerCase pf (metal p) = toLowerCase pf (selectedMetal s)) (heap s r) \<and>
         (products s = ArrayRef r \<longrightarrow>
            (\<exists>s' out. filterEffect pf s = Inr s' \<and> deref s' (filteredProducts s') = Some out \<and>
               (\<forall>p\<in>set out. toLowerCase pf (metal p) = toLowerCase pf (selectedMetal s))))"
proof -
  have "\<exists>s' out. filterEffect pf s = Inr s' \<and> deref s' (filteredProducts s') = Some out \<and>
               (\<forall>p\<in>set out. toLowerCase pf (metal p) = toLowerCase pf (selectedMetal s))"
    if prod: "products s = ArrayRef r"
  proof -
    let ?out = "sort_by (compareFn pf (sortBy s)) (filter (retained pf s) (heap s r))"
    obtain s' where "filterEffect pf s = Inr s'" "deref s' (filteredProducts s') = Some ?out"
      using filterEffect_output [OF prod] by blast
    moreover have "\<forall>p\<in>set ?out. toLowerCase pf (metal p) = toLowerCase pf (selectedMetal s)"
      using assms by (simp add: set_sort_by retained_def metalPred_def)
    ultimately show ?thesis by blast
  qed
  then show ?thesis
    using assms by (simp add: arrayOf_metalStep metalPred_def [abs_def])
qed

theorem metal_step_exact_witness:
  "selectedMetal ((loaded catalog)\<lparr>selectedMetal := ''GOLD''\<rparr>) \<noteq> ''all'' \<and>
   products ((loaded catalog)\<lparr>selectedMetal := ''GOLD''\<rparr>) = ArrayRef 2 \<and>
   arrayOf (metalStep asciiRuntime 2 ((loaded catalog)\<lparr>selectedMetal := ''GOLD''\<rparr>)) =
     [goldRing, pearlPendant] \<and>
   (\<exists>s'. filterEffect asciiRuntime ((loaded catalog)\<lparr>selectedMetal := ''GOLD''\<rparr>) = Inr s' \<and>
      deref s' (filteredProducts s') = Some [goldRing, pearlPendant])"
  using metal_step_exact [of "(loaded catalog)\<lparr>selectedMetal := ''GOLD''\<rparr>" asciiRuntime 2]
  by (simp add: loaded_simps eval_defs)

section \<open>The sort step\<close>

text \<open>
  C7. The sort step rearranges the array it is given (a permutation) so that: under
  "rating" the ratings descend; under "reviews" the review counts descend; under "name"
  and under every other value of \<open>sortBy\<close> the names ascend in the order of
  \<^verbatim>\<open>localeCompare\<close>.
\<close>

theorem sort_step_order:
  "(sortBy s = ''rating'' \<longrightarrow>
      sorted_wrt (\<lambda>a b. rating b \<le> rating a) (heap (sortStep pf r s) r)) \<and>
   (sortBy s = ''reviews'' \<longrightarrow>
      sorted_wrt (\<lambda>a b. reviews b \<le> reviews a) (heap (sortStep pf r s) r)) \<and>
   (sortBy s \<noteq> ''rating'' \<and> sortBy s \<noteq> ''reviews'' \<and> consistent (localeCompare pf) \<longrightarrow>
      sorted_wrt (\<lambda>a b. localeCompare pf (name a) (name b) \<le> 0) (heap (sortStep pf r s) r)) \<and>
   mset (heap (sortStep pf r s) r) = mset (heap s r)"
proof -
  have "sorted_wrt (\<lambda>a b. compareFn pf (sortBy s) a b \<le> 0) (heap (sortStep pf r s) r)"
    if "sortBy s = ''rating'' \<or> sortBy s = ''reviews'' \<or> consistent (localeCompare pf)"
    using that unfolding heap_sortStep by (intro sorted_sort_by consistent_compareFn)
  then show ?thesis
    by (auto simp add: compareFn_def heap_sortStep mset_sort_by)
qed

theorem sort_step_order_witness:
  "heap (sortStep asciiRuntime 2 ((loaded catalog)\<lparr>sortBy := ''rating''\<rparr>)) 2 =
     [silverBand, goldRing, pearlPendant] \<and>
   heap (sortStep asciiRuntime 2 ((loaded catalog)\<lparr>sortBy := ''reviews''\<rparr>)) 2 =
     [goldRing, silverBand, pearlPendant] \<and>
   heap (sortStep asciiRuntime 2 (loaded catalog)) 2 = [goldRing, pearlPendant, silverBand] \<and>
   heap (sortStep asciiRuntime 2 ((loaded catalog)\<lparr>sortBy := ''price''\<rparr>)) 2 =
     [goldRing, pearlPendant, silverBand]"
  using sort_step_order [of "(loaded catalog)\<lparr>sortBy := ''rating''\<rparr>" asciiRuntime 2]
    sort_step_order [of "(loaded catalog)\<lparr>sortBy := ''reviews''\<rparr>" asciiRuntime 2]
    sort_step_order [of "loaded catalog" asciiRuntime 2]
    sort_step_order [of "(loaded catalog)\<lparr>sortBy := ''price''\<rparr>" asciiRuntime 2]
    consistent_asciiRuntime
  by (simp add: loaded_simps eval_defs)

text \<open>
  C8. The sort is stable: for any product \<open>k\<close>, the products that tie with \<open>k\<close> under the
  comparator of \<open>sortBy\<close> stand in the sorted array in the order they had before.
\<close>

theorem sort_step_stable:
  assumes "sortBy s = ''rating'' \<or> sortBy s = ''reviews'' \<or> consistent (localeCompare pf)"
  shows "filter (\<lambda>p. compareFn pf (sortBy s) k p = 0) (heap (sortStep pf r s) r) =
         filter (\<lambda>p. compareFn pf (sortBy s) k p = 0) (heap s r)"
  unfolding heap_sortStep by (rule sort_by_stable [OF consistent_compareFn [OF assms]])

theorem sort_step_stable_witness:
  "sortBy ((loaded catalog)\<lparr>sortBy := ''rating''\<rparr>) = ''rating'' \<and>
   heap (sortStep asciiRuntime 2 ((loaded catalog)\<lparr>sortBy := ''rating''\<rparr>)) 2 =
     [silverBand, goldRing, pearlPendant] \<and>
   filter (\<lambda>p. compareFn asciiRuntime ''rating'' goldRing p = 0)
     (heap (sortStep asciiRuntime 2 ((loaded catalog)\<lparr>sortBy := ''rating''\<rparr>)) 2) =
     [goldRing, pearlPendant] \<and>
   filter (\<lambda>p. compareFn asciiRuntime ''rating'' goldRing p = 0) catalog =
     [goldRing, pearlPendant]"
  using sort_step_stable [of "(loaded catalog)\<lparr>sortBy := ''rating''\<rparr>" asciiRuntime goldRing 2]
  by (simp add: loaded_simps eval_defs)

text \<open>
  C9. Sorting is idempotent: running the sort step a second time, with the same \<open>sortBy\<close>,
  on the array it has just sorted changes nothing.
\<close>

theorem sort_step_idempotent:
  assumes "sortBy s = ''rating'' \<or> sortBy s = ''reviews'' \<or> consistent (localeCompare pf)"
  shows "sortStep pf r (sortStep pf r s) = sortStep pf r s"
  using sort_by_idem [OF consistent_compareFn [OF assms]]
  by (simp add: sortStep_def array_sort_def)

theorem sort_step_idempotent_witness:
  "heap (sortStep asciiRuntime 2 (loaded catalog)) 2 = [goldRing, pearlPendant, silverBand] \<and>
   sortStep asciiRuntime 2 (sortStep asciiRuntime 2 (loaded catalog)) =
     sortStep asciiRuntime 2 (loaded catalog)"
  using sort_step_idempotent [of "loaded catalog" asciiRuntime 2] consistent_asciiRuntime
  by (simp add: loaded_simps eval_defs)

section \<open>The reset control: what it changes\<close>

text \<open>
  C10. The click handler of the reset control sets the search term to the empty string and
  both selectors to "all"; it leaves \<open>sortBy\<close>, the stored product list and every array
  of the store as they were.
\<close>

theorem clear_all_filters_effect:
  "searchTerm (clearAllFilters s) = '''' \<and> selectedCategory (clearAllFilters s) = ''all'' \<and>
   selectedMetal (clearAllFilters s) = ''all'' \<and> sortBy (clearAllFilters s) = sortBy s \<and>
   products (clearAllFilters s) = products s \<and> heap (clearAllFilters s) = heap s"
  by (simp add: clearAllFilters_def)

end
